theory Spec2Isabelle
  imports Complex_Main
begin

section \<open>Conventions of the embedding\<close>

text \<open>
  The TypeScript sources are embedded function by function.

  \<^item> A JavaScript \<open>number\<close> that holds a price, an amount or a percentage is a \<open>real\<close>:
    the model computes with exact arithmetic and leaves IEEE rounding, overflow,
    \<open>Infinity\<close> and \<open>NaN\<close> out. The two differ where a divisor is zero (JavaScript
    yields a non-finite value, HOL yields \<open>0\<close>): a quote whose ask is 0 and an
    opportunity whose source price is 0 are outside the model. The checks the statements
    below are about (freshness, the admission gates, the test of the first swap's result)
    are made before, or without, such a quotient.
  \<^item> A \<open>number\<close> that holds a time in milliseconds (\<open>Date.now()\<close>, a cool-down) or a
    count (\<open>activeExecutions\<close>, \<open>maxConcurrentTrades\<close>, \<open>retries\<close>) is an \<open>int\<close>.
  \<^item> \<open>Date.now()\<close> is an oracle \<open>clk :: nat \<Rightarrow> int\<close>: the \<open>t\<close>-th reading of the clock
    returns \<open>clk t\<close>. A function that reads the clock takes \<open>clk\<close> and the number \<open>t\<close> of
    readings made so far, and returns the new count beside its result.
  \<^item> Where two interfaces of the source share a field name, the later record prefixes
    it (\<open>opp_pair\<close>, \<open>opp_timestamp\<close> for \<open>ArbitrageOpportunity.pair\<close> and
    \<open>.timestamp\<close>; \<open>an_\<close> for the private fields of \<open>MarketAnalyzer\<close>).
\<close>

section \<open>Market analysis (market-analyzer.ts)\<close>

text \<open>\<open>interface PriceData\<close> of market-collector.ts; \<open>last_price\<close> is the field \<open>last?\<close>.\<close>

record PriceData =
  dex :: string
  pair :: string
  bid :: real
  ask :: real
  last_price :: "real option"
  timestamp :: int

datatype Direction = Buy | Sell

text \<open>\<open>interface ArbitrageOpportunity\<close>.\<close>

record ArbitrageOpportunity =
  sourceDex :: string
  targetDex :: string
  opp_pair :: string
  profitPercentage :: real
  estimatedProfit :: real
  sourcePrice :: real
  targetPrice :: real
  direction :: Direction
  opp_timestamp :: int
  tradeSize :: real

text \<open>The private fields of \<open>class MarketAnalyzer\<close>.\<close>

record MarketAnalyzer =
  an_minProfitThreshold :: real
  an_maxSlippage :: real
  an_tradeSizeUsd :: real
  an_gasCostSol :: real
  an_solPriceUsd :: real

text \<open>\<open>const gasCostUsd = this.gasCostSol * this.solPriceUsd\<close>.\<close>

definition gasCostUsd :: "MarketAnalyzer \<Rightarrow> real" where
  "gasCostUsd an = an_gasCostSol an * an_solPriceUsd an"

text \<open>
  The first \<open>if\<close> of the loop body (``buy opportunity: buy on dexA, sell on dexB''),
  returning what it pushes.
\<close>

definition buyBranch ::
  "MarketAnalyzer \<Rightarrow> string \<Rightarrow> int \<Rightarrow> PriceData \<Rightarrow> PriceData \<Rightarrow> ArbitrageOpportunity list" where
  "buyBranch an p now dexA dexB =
     (if bid dexB > ask dexA then
        (let profitPerUnit = bid dexB - ask dexA;
             profitPct = (profitPerUnit / ask dexA) * 100;
             size = an_tradeSizeUsd an / ask dexA;
             estimated = (profitPerUnit * size) - gasCostUsd an
         in if profitPct \<ge> an_minProfitThreshold an \<and> estimated > 0 then
              [\<lparr>sourceDex = dex dexA, targetDex = dex dexB, opp_pair = p,
                profitPercentage = profitPct, estimatedProfit = estimated,
                sourcePrice = ask dexA, targetPrice = bid dexB, direction = Buy,
                opp_timestamp = now, tradeSize = size\<rparr>]
            else [])
      else [])"

text \<open>
  The second \<open>if\<close> of the loop body (``sell opportunity: buy on dexB, sell on dexA'').
  The object literal it pushes has \<open>direction: 'buy'\<close>, as the first one has.
\<close>

definition sellBranch ::
  "MarketAnalyzer \<Rightarrow> string \<Rightarrow> int \<Rightarrow> PriceData \<Rightarrow> PriceData \<Rightarrow> ArbitrageOpportunity list" where
  "sellBranch an p now dexA dexB =
     (if bid dexA > ask dexB then
        (let profitPerUnit = bid dexA - ask dexB;
             profitPct = (profitPerUnit / ask dexB) * 100;
             size = an_tradeSizeUsd an / ask dexB;
             estimated = (profitPerUnit * size) - gasCostUsd an
         in if profitPct \<ge> an_minProfitThreshold an \<and> estimated > 0 then
              [\<lparr>sourceDex = dex dexB, targetDex = dex dexA, opp_pair = p,
                profitPercentage = profitPct, estimatedProfit = estimated,
                sourcePrice = ask dexB, targetPrice = bid dexA, direction = Buy,
                opp_timestamp = now, tradeSize = size\<rparr>]
            else [])
      else [])"

text \<open>
  The body of the inner loop for one venue pair, \<open>now\<close> being its reading of
  \<open>Date.now()\<close>: the freshness check (\<open>continue\<close> when either quote is older than
  30000 ms), then the two branches.
\<close>

definition comparePair ::
  "MarketAnalyzer \<Rightarrow> string \<Rightarrow> int \<Rightarrow> PriceData \<Rightarrow> PriceData \<Rightarrow> ArbitrageOpportunity list" where
  "comparePair an p now dexA dexB =
     (if now - timestamp dexA > 30000 \<or> now - timestamp dexB > 30000 then []
      else buyBranch an p now dexA dexB @ sellBranch an p now dexA dexB)"

text \<open>
  \<open>for (let j = i + 1; j < priceDataArray.length; j++)\<close>: \<open>dexA\<close> is
  \<open>priceDataArray[i]\<close> and the list holds the elements after index \<open>i\<close>. Each iteration
  reads the clock once.
\<close>

fun innerLoop ::
  "MarketAnalyzer \<Rightarrow> string \<Rightarrow> (nat \<Rightarrow> int) \<Rightarrow> nat \<Rightarrow> PriceData \<Rightarrow> PriceData list
     \<Rightarrow> ArbitrageOpportunity list \<times> nat" where
  "innerLoop an p clk t dexA [] = ([], t)"
| "innerLoop an p clk t dexA (dexB # rest) =
     (case innerLoop an p clk (Suc t) dexA rest of
        (found, t') \<Rightarrow> (comparePair an p (clk t) dexA dexB @ found, t'))"

text \<open>\<open>for (let i = 0; i < priceDataArray.length; i++)\<close>.\<close>

fun outerLoop ::
  "MarketAnalyzer \<Rightarrow> string \<Rightarrow> (nat \<Rightarrow> int) \<Rightarrow> nat \<Rightarrow> PriceData list
     \<Rightarrow> ArbitrageOpportunity list \<times> nat" where
  "outerLoop an p clk t [] = ([], t)"
| "outerLoop an p clk t (dexA # rest) =
     (case innerLoop an p clk t dexA rest of
        (found1, t1) \<Rightarrow>
          (case outerLoop an p clk t1 rest of
             (found2, t2) \<Rightarrow> (found1 @ found2, t2)))"

text \<open>
  \<open>for (const [pair, priceDataArray] of marketData.entries())\<close>: the \<open>Map\<close> is the list
  of its entries in insertion order; a pair quoted by fewer than two venues is skipped.
\<close>

fun pairsLoop ::
  "MarketAnalyzer \<Rightarrow> (nat \<Rightarrow> int) \<Rightarrow> nat \<Rightarrow> (string \<times> PriceData list) list
     \<Rightarrow> ArbitrageOpportunity list \<times> nat" where
  "pairsLoop an clk t [] = ([], t)"
| "pairsLoop an clk t ((p, priceDataArray) # others) =
     (if length priceDataArray < 2 then pairsLoop an clk t others
      else
        (case outerLoop an p clk t priceDataArray of
           (found1, t1) \<Rightarrow>
             (case pairsLoop an clk t1 others of
                (found2, t2) \<Rightarrow> (found1 @ found2, t2))))"

text \<open>
  \<open>findArbitrageOpportunities\<close>: the loops, then
  \<open>opportunities.sort((a, b) => b.profitPercentage - a.profitPercentage)\<close>, a stable
  sort by descending profit percentage.
\<close>

definition findArbitrageOpportunities ::
  "MarketAnalyzer \<Rightarrow> (nat \<Rightarrow> int) \<Rightarrow> nat \<Rightarrow> (string \<times> PriceData list) list
     \<Rightarrow> ArbitrageOpportunity list \<times> nat" where
  "findArbitrageOpportunities an clk t marketData =
     (case pairsLoop an clk t marketData of
        (found, t') \<Rightarrow> (sort_key (\<lambda>opp. - profitPercentage opp) found, t'))"

text \<open>The number of clock readings one call makes: one per compared venue pair.\<close>

fun clockReadings :: "(string \<times> PriceData list) list \<Rightarrow> nat" where
  "clockReadings [] = 0"
| "clockReadings ((p, priceDataArray) # others) =
     (if length priceDataArray < 2 then clockReadings others
      else (length priceDataArray * (length priceDataArray - 1)) div 2 + clockReadings others)"

text \<open>
  An opportunity is quoted by a source and a target quote when it carries their venue
  names, the source's ask as its source price and the target's bid as its target price.
\<close>

definition quotedBy :: "ArbitrageOpportunity \<Rightarrow> PriceData \<Rightarrow> PriceData \<Rightarrow> bool" where
  "quotedBy opp src tgt \<longleftrightarrow>
     sourceDex opp = dex src \<and> sourcePrice opp = ask src \<and>
     targetDex opp = dex tgt \<and> targetPrice opp = bid tgt"

text \<open>
  Two analyzers agree on the fields \<open>findArbitrageOpportunities\<close> reads
  (\<open>maxSlippage\<close> is not among them).
\<close>

definition sameDetectionConfig :: "MarketAnalyzer \<Rightarrow> MarketAnalyzer \<Rightarrow> bool" where
  "sameDetectionConfig a1 a2 \<longleftrightarrow>
     an_minProfitThreshold a1 = an_minProfitThreshold a2 \<and>
     an_tradeSizeUsd a1 = an_tradeSizeUsd a2 \<and>
     an_gasCostSol a1 = an_gasCostSol a2 \<and>
     an_solPriceUsd a1 = an_solPriceUsd a2"

text \<open>A clock that returns the same time at every reading of one synchronous call.\<close>

definition fixedClock :: "int \<Rightarrow> nat \<Rightarrow> int" where
  "fixedClock now k = now"

text \<open>
  Concrete inputs: the analyzer with the constructor's default arguments, and a market in
  which \<open>SOL/USDC\<close> is quoted by Serum (index 0) at bid 102 / ask 103 and by Raydium
  (index 1) at bid 99 / ask 100, so that \<open>quotes[0].bid > quotes[1].ask\<close>.
\<close>

definition defaultAnalyzer :: MarketAnalyzer where
  "defaultAnalyzer = \<lparr>an_minProfitThreshold = 0.5, an_maxSlippage = 0.3, an_tradeSizeUsd = 1000,
     an_gasCostSol = 0.001, an_solPriceUsd = 150\<rparr>"

definition quoteSerum :: PriceData where
  "quoteSerum = \<lparr>dex = ''Serum'', pair = ''SOL/USDC'', bid = 102, ask = 103,
     last_price = None, timestamp = 1699999999000\<rparr>"

definition quoteRaydium :: PriceData where
  "quoteRaydium = \<lparr>dex = ''Raydium'', pair = ''SOL/USDC'', bid = 99, ask = 100,
     last_price = None, timestamp = 1699999999000\<rparr>"

definition crossedMarket :: "(string \<times> PriceData list) list" where
  "crossedMarket = [(''SOL/USDC'', [quoteSerum, quoteRaydium])]"


section \<open>Detection registry and admission (detector.ts, strategy.ts)\<close>

datatype Status = Pending | Executing | Completed | Failed

text \<open>
  \<open>interface ExecutableArbitrageOpportunity extends ArbitrageOpportunity\<close>; \<open>opp_id\<close> and
  \<open>opp_error\<close> are its fields \<open>id\<close> and \<open>error?\<close>.
\<close>

record ExecutableArbitrageOpportunity = ArbitrageOpportunity +
  opp_id :: string
  status :: Status
  executionTimestamp :: "int option"
  executionTxId :: "string option"
  actualProfit :: "real option"
  opp_error :: "string option"

text \<open>\<open>interface ArbitrageDetectorConfig\<close>.\<close>

record ArbitrageDetectorConfig =
  minProfitThreshold :: real
  maxSlippage :: real
  tradeSizeUsd :: real
  maxConcurrentTrades :: int
  cooldownMs :: int
  gasMultiplier :: real

text \<open>
  \<open>interface ArbitrageStrategyConfig\<close>: the six fields of the detector's configuration
  and the strategy's own. The four lists are optional in the source and stay so; the two
  limits are read with a non-null assertion.
\<close>

record ArbitrageStrategyConfig = ArbitrageDetectorConfig +
  prioritizePairs :: "string list option"
  blacklistPairs :: "string list option"
  prioritizeDexes :: "string list option"
  blacklistDexes :: "string list option"
  minTradeIntervalMs :: int
  maxDailyTrades :: int

text \<open>The private fields of \<open>class ArbitrageStrategy\<close>.\<close>

record ArbitrageStrategy =
  strategyConfig :: ArbitrageStrategyConfig
  dailyTradeCount :: int
  lastTradeTime :: int
  dailyResetTime :: int

text \<open>
  The private fields of \<open>class ArbitrageDetector\<close>, and what its methods reach through
  them:
  \<^item> \<open>objects\<close> is the store of the \<open>ExecutableArbitrageOpportunity\<close> objects the detector
    has created; a reference is an index into it. The table \<open>detectedOpportunities\<close>
    (a \<open>Map\<close>, here its entries in insertion order) holds references, and so does every
    suspended call of \<open>executeOpportunity\<close>: the source mutates the object both hold.
  \<^item> \<open>suspended\<close> lists the calls of \<open>executeOpportunity\<close> that wait at their \<open>await\<close>.
  \<^item> \<open>strategy\<close> is the state of the \<open>ArbitrageStrategy\<close> whose \<open>handleOpportunity\<close> the
    strategy's constructor registers in \<open>opportunityCallbacks\<close>.
\<close>

record ArbitrageDetector =
  config :: ArbitrageDetectorConfig
  isRunning :: bool
  detectedOpportunities :: "(string \<times> nat) list"
  lastExecutionTime :: int
  activeExecutions :: int
  objects :: "ExecutableArbitrageOpportunity list"
  suspended :: "nat list"
  strategy :: ArbitrageStrategy

subsection \<open>strategy.ts\<close>

text \<open>
  \<open>filterOpportunity\<close>. \<open>list.includes(x)\<close> is membership; an absent list fails the
  guard \<open>this.config.blacklistPairs && ...\<close>.
\<close>

definition filterOpportunity ::
  "ArbitrageStrategyConfig \<Rightarrow> ExecutableArbitrageOpportunity \<Rightarrow> bool" where
  "filterOpportunity cfg opp =
     (if (case blacklistPairs cfg of None \<Rightarrow> False | Some l \<Rightarrow> opp_pair opp \<in> set l) then False
      else if (case blacklistDexes cfg of None \<Rightarrow> False
               | Some l \<Rightarrow> sourceDex opp \<in> set l \<or> targetDex opp \<in> set l) then False
      else if profitPercentage opp < minProfitThreshold cfg then False
      else if (case prioritizePairs cfg of None \<Rightarrow> False
               | Some l \<Rightarrow> length l > 0 \<and> opp_pair opp \<notin> set l \<and>
                           profitPercentage opp < minProfitThreshold cfg * 1.5) then False
      else if (case prioritizeDexes cfg of None \<Rightarrow> False
               | Some l \<Rightarrow> length l > 0 \<and> sourceDex opp \<notin> set l \<and> targetDex opp \<notin> set l \<and>
                           profitPercentage opp < minProfitThreshold cfg * 1.5) then False
      else True)"

text \<open>
  \<open>resetDailyTradeCount\<close>: the count returns to 0 and the next reset is the next midnight
  UTC after the clock reading \<open>new Date()\<close> (a day has 86400000 ms).
\<close>

definition resetDailyTradeCount ::
  "(nat \<Rightarrow> int) \<Rightarrow> nat \<Rightarrow> ArbitrageStrategy \<Rightarrow> ArbitrageStrategy \<times> nat" where
  "resetDailyTradeCount clk t st =
     (st\<lparr>dailyTradeCount := 0, dailyResetTime := (clk t div 86400000 + 1) * 86400000\<rparr>, Suc t)"

text \<open>\<open>checkTradeLimits\<close>, with the counters it updates when it answers \<open>true\<close>.\<close>

definition checkTradeLimits ::
  "(nat \<Rightarrow> int) \<Rightarrow> nat \<Rightarrow> ArbitrageStrategy \<Rightarrow> bool \<times> ArbitrageStrategy \<times> nat" where
  "checkTradeLimits clk t st =
     (let now = clk t;
          (st1, t1) = (if now > dailyResetTime st then resetDailyTradeCount clk (Suc t) st
                       else (st, Suc t))
      in if dailyTradeCount st1 \<ge> maxDailyTrades (strategyConfig st1) then (False, st1, t1)
         else if now - lastTradeTime st1 < minTradeIntervalMs (strategyConfig st1)
           then (False, st1, t1)
         else (True, st1\<lparr>lastTradeTime := now, dailyTradeCount := dailyTradeCount st1 + 1\<rparr>, t1))"

text \<open>
  \<open>handleOpportunity\<close>, the callback the strategy registers with the detector. Each of
  its three checks ends in \<open>return\<close>, and so does the function after them: it returns
  nothing and calls nothing of the detector, so all it changes is the strategy's counters.
\<close>

definition handleOpportunity ::
  "(nat \<Rightarrow> int) \<Rightarrow> nat \<Rightarrow> ArbitrageStrategy \<Rightarrow> ExecutableArbitrageOpportunity
     \<Rightarrow> ArbitrageStrategy \<times> nat" where
  "handleOpportunity clk t st opp =
     (if status opp \<noteq> Pending then (st, t)
      else if \<not> filterOpportunity (strategyConfig st) opp then (st, t)
      else (case checkTradeLimits clk t st of (ok, st', t') \<Rightarrow> (st', t')))"

subsection \<open>detector.ts\<close>

text \<open>Decimal digits of a natural number, and JavaScript's rendering of an integer.\<close>

fun digits :: "nat \<Rightarrow> string" where
  "digits n =
     (if n < 10 then [''0123456789'' ! n]
      else digits (n div 10) @ [''0123456789'' ! (n mod 10)])"

declare digits.simps [simp del]

definition numberToString :: "int \<Rightarrow> string" where
  "numberToString i = (if i < 0 then CHR ''-'' # digits (nat (- i)) else digits (nat i))"

definition directionToString :: "Direction \<Rightarrow> string" where
  "directionToString d = (case d of Buy \<Rightarrow> ''buy'' | Sell \<Rightarrow> ''sell'')"

text \<open>
  \<open>generateOpportunityId\<close>: the template string
  \<open>${sourceDex}-${targetDex}-${pair}-${direction}-${timestamp}\<close>.
\<close>

definition generateOpportunityId :: "ArbitrageOpportunity \<Rightarrow> string" where
  "generateOpportunityId opp =
     sourceDex opp @ ''-'' @ targetDex opp @ ''-'' @ opp_pair opp @ ''-'' @
     directionToString (direction opp) @ ''-'' @ numberToString (opp_timestamp opp)"

text \<open>The object literal \<open>{ ...opportunity, id, status: 'pending' }\<close>.\<close>

definition pendingOpportunity ::
  "ArbitrageOpportunity \<Rightarrow> string \<Rightarrow> ExecutableArbitrageOpportunity" where
  "pendingOpportunity opp ident =
     \<lparr>sourceDex = sourceDex opp, targetDex = targetDex opp, opp_pair = opp_pair opp,
      profitPercentage = profitPercentage opp, estimatedProfit = estimatedProfit opp,
      sourcePrice = sourcePrice opp, targetPrice = targetPrice opp, direction = direction opp,
      opp_timestamp = opp_timestamp opp, tradeSize = tradeSize opp,
      opp_id = ident, status = Pending, executionTimestamp = None, executionTxId = None,
      actualProfit = None, opp_error = None\<rparr>"

text \<open>
  \<open>notifyOpportunityCallbacks\<close>: the registered callback is called with the object;
  the \<open>try\<close> around it has nothing to catch, the strategy's callback raising nothing.
\<close>

definition notifyOpportunityCallbacks ::
  "(nat \<Rightarrow> int) \<Rightarrow> nat \<Rightarrow> ArbitrageDetector \<Rightarrow> nat \<Rightarrow> ArbitrageDetector \<times> nat" where
  "notifyOpportunityCallbacks clk t d ref =
     (case handleOpportunity clk t (strategy d) (objects d ! ref) of
        (st', t') \<Rightarrow> (d\<lparr>strategy := st'\<rparr>, t'))"

text \<open>
  \<open>executeOpportunity\<close> up to its \<open>await\<close>: the synchronous part that runs inside the
  caller. The call is then suspended.
\<close>

definition executeOpportunity ::
  "(nat \<Rightarrow> int) \<Rightarrow> nat \<Rightarrow> ArbitrageDetector \<Rightarrow> nat \<Rightarrow> ArbitrageDetector \<times> nat" where
  "executeOpportunity clk t d ref =
     (let now = clk t;
          d1 = d\<lparr>objects := (objects d)[ref := (objects d ! ref)
                       \<lparr>status := Executing, executionTimestamp := Some now\<rparr>],
                 lastExecutionTime := now,
                 activeExecutions := activeExecutions d + 1\<rparr>
      in case notifyOpportunityCallbacks clk (Suc t) d1 ref of
           (d2, t2) \<Rightarrow> (d2\<lparr>suspended := suspended d2 @ [ref]\<rparr>, t2))"

text \<open>
  How a suspended call goes on after the timer: the rest of the \<open>try\<close> block runs to its
  end, \<open>rnd\<close> being the value of \<open>Math.random()\<close>, or something in it throws an error with
  the given message.
\<close>

datatype Outcome = Resolves real | Throws string

text \<open>
  \<open>executeOpportunity\<close> from its \<open>await\<close> on: the rest of \<open>try\<close> or the \<open>catch\<close> block,
  then \<open>finally\<close>.
\<close>

definition executeOpportunityResume ::
  "(nat \<Rightarrow> int) \<Rightarrow> nat \<Rightarrow> ArbitrageDetector \<Rightarrow> nat \<Rightarrow> Outcome \<Rightarrow> ArbitrageDetector \<times> nat" where
  "executeOpportunityResume clk t d ref outcome =
     (let opp = objects d ! ref;
          (opp', t1) =
            (case outcome of
               Resolves rnd \<Rightarrow>
                 (opp\<lparr>status := Completed,
                      executionTxId := Some (''simulated-tx-'' @ numberToString (clk t)),
                      actualProfit := Some (estimatedProfit opp * (0.9 + rnd * 0.2))\<rparr>, Suc t)
             | Throws msg \<Rightarrow> (opp\<lparr>status := Failed, opp_error := Some msg\<rparr>, t));
          d1 = d\<lparr>objects := (objects d)[ref := opp'],
                 activeExecutions := activeExecutions d - 1,
                 suspended := remove1 ref (suspended d)\<rparr>
      in notifyOpportunityCallbacks clk t1 d1 ref)"

text \<open>\<open>evaluateForExecution\<close>: four checks, each ending in \<open>return\<close>, then the execution.\<close>

definition evaluateForExecution ::
  "(nat \<Rightarrow> int) \<Rightarrow> nat \<Rightarrow> ArbitrageDetector \<Rightarrow> nat \<Rightarrow> ArbitrageDetector \<times> nat" where
  "evaluateForExecution clk t d ref =
     (if \<not> isRunning d then (d, t)
      else if activeExecutions d \<ge> maxConcurrentTrades (config d) then (d, t)
      else
        (let now = clk t in
         if now - lastExecutionTime d < cooldownMs (config d) then (d, Suc t)
         else if profitPercentage (objects d ! ref) < minProfitThreshold (config d) then (d, Suc t)
         else executeOpportunity clk (Suc t) d ref))"

text \<open>
  The body of the loop of \<open>handleOpportunities\<close> for one opportunity: an id the table
  already has is skipped (\<open>continue\<close>); otherwise a new object is created, stored,
  announced and evaluated.
\<close>

definition handleOne ::
  "(nat \<Rightarrow> int) \<Rightarrow> nat \<Rightarrow> ArbitrageDetector \<Rightarrow> ArbitrageOpportunity \<Rightarrow> ArbitrageDetector \<times> nat" where
  "handleOne clk t d opp =
     (let ident = generateOpportunityId opp in
      if ident \<in> fst ` set (detectedOpportunities d) then (d, t)
      else
        (let ref = length (objects d);
             d1 = d\<lparr>objects := objects d @ [pendingOpportunity opp ident],
                    detectedOpportunities := detectedOpportunities d @ [(ident, ref)]\<rparr>
         in case notifyOpportunityCallbacks clk t d1 ref of
              (d2, t2) \<Rightarrow> evaluateForExecution clk t2 d2 ref))"

fun handleLoop ::
  "(nat \<Rightarrow> int) \<Rightarrow> nat \<Rightarrow> ArbitrageDetector \<Rightarrow> ArbitrageOpportunity list \<Rightarrow> ArbitrageDetector \<times> nat" where
  "handleLoop clk t d [] = (d, t)"
| "handleLoop clk t d (opp # opps) =
     (case handleOne clk t d opp of (d', t') \<Rightarrow> handleLoop clk t' d' opps)"

text \<open>
  \<open>cleanupOldOpportunities\<close>: entries detected more than five minutes before the clock
  reading leave the table (the objects stay reachable from suspended calls).
\<close>

definition cleanupOldOpportunities ::
  "(nat \<Rightarrow> int) \<Rightarrow> nat \<Rightarrow> ArbitrageDetector \<Rightarrow> ArbitrageDetector \<times> nat" where
  "cleanupOldOpportunities clk t d =
     (let now = clk t; maxAge = 5 * 60 * 1000
      in (d\<lparr>detectedOpportunities :=
               filter (\<lambda>(ident, ref). \<not> (now - opp_timestamp (objects d ! ref) > maxAge))
                 (detectedOpportunities d)\<rparr>, Suc t))"

text \<open>\<open>handleOpportunities\<close>, the callback the detector registers with the market monitor.\<close>

definition handleOpportunities ::
  "(nat \<Rightarrow> int) \<Rightarrow> nat \<Rightarrow> ArbitrageDetector \<Rightarrow> ArbitrageOpportunity list \<Rightarrow> ArbitrageDetector \<times> nat" where
  "handleOpportunities clk t d opps =
     (if \<not> isRunning d then (d, t)
      else (case handleLoop clk t d opps of (d', t') \<Rightarrow> cleanupOldOpportunities clk t' d'))"

text \<open>\<open>start\<close> and \<open>stop\<close>, as far as the detector's own fields go.\<close>

definition start :: "ArbitrageDetector \<Rightarrow> ArbitrageDetector" where
  "start d = (if isRunning d then d else d\<lparr>isRunning := True\<rparr>)"

definition stop :: "ArbitrageDetector \<Rightarrow> ArbitrageDetector" where
  "stop d = (if \<not> isRunning d then d else d\<lparr>isRunning := False\<rparr>)"

text \<open>
  \<open>updateConfig\<close>, as far as the detector's own fields go: \<open>cfg\<close> is the merged
  configuration \<open>{ ...this.config, ...config }\<close>, any field of which may be new.
\<close>

definition updateConfig :: "ArbitrageDetector \<Rightarrow> ArbitrageDetectorConfig \<Rightarrow> ArbitrageDetector" where
  "updateConfig d cfg = d\<lparr>config := cfg\<rparr>"

text \<open>
  The detector as the two constructors leave it: the strategy's constructor copies the
  six shared fields of its configuration into the detector's (\<open>detector.updateConfig\<close>)
  and reads the clock for its first daily reset.
\<close>

definition newDetector :: "ArbitrageStrategyConfig \<Rightarrow> int \<Rightarrow> ArbitrageDetector" where
  "newDetector cfg now =
     \<lparr>config = \<lparr>minProfitThreshold = minProfitThreshold cfg, maxSlippage = maxSlippage cfg,
                tradeSizeUsd = tradeSizeUsd cfg, maxConcurrentTrades = maxConcurrentTrades cfg,
                cooldownMs = cooldownMs cfg, gasMultiplier = gasMultiplier cfg\<rparr>,
      isRunning = False, detectedOpportunities = [], lastExecutionTime = 0,
      activeExecutions = 0, objects = [], suspended = [],
      strategy = \<lparr>strategyConfig = cfg, dailyTradeCount = 0, lastTradeTime = 0,
                  dailyResetTime = (now div 86400000 + 1) * 86400000\<rparr>\<rparr>"

text \<open>
  What happens to a detector, one event at a time: the market monitor delivers
  opportunities, a suspended execution goes on, or \<open>start\<close>, \<open>stop\<close> or
  \<open>updateConfig\<close> is called. An execution that is not suspended cannot go on.
\<close>

datatype Event =
  Delivers "ArbitrageOpportunity list" | GoesOn nat Outcome | StartCalled | StopCalled
  | Reconfigures ArbitrageDetectorConfig

fun step :: "(nat \<Rightarrow> int) \<Rightarrow> nat \<Rightarrow> ArbitrageDetector \<Rightarrow> Event \<Rightarrow> ArbitrageDetector \<times> nat" where
  "step clk t d (Delivers opps) = handleOpportunities clk t d opps"
| "step clk t d (GoesOn ref outcome) =
     (if ref \<in> set (suspended d) then executeOpportunityResume clk t d ref outcome else (d, t))"
| "step clk t d StartCalled = (start d, t)"
| "step clk t d StopCalled = (stop d, t)"
| "step clk t d (Reconfigures cfg) = (updateConfig d cfg, t)"

fun run :: "(nat \<Rightarrow> int) \<Rightarrow> nat \<Rightarrow> ArbitrageDetector \<Rightarrow> Event list \<Rightarrow> ArbitrageDetector \<times> nat" where
  "run clk t d [] = (d, t)"
| "run clk t d (e # es) = (case step clk t d e of (d', t') \<Rightarrow> run clk t' d' es)"


section \<open>Trade execution (executor.ts, swap.ts, arbitrage-executor.ts)\<close>


















section \<open>Market data collection (market-collector.ts)\<close>

text \<open>
  The fields of \<open>class MarketDataCollector\<close> that \<open>collectData\<close> and \<open>getPriceData\<close> use.
  \<^item> \<open>arrays\<close> is the store of the \<open>PriceData[]\<close> array objects the collector has created;
    a reference is an index into it.
  \<^item> \<open>priceData\<close> is the \<open>Map<string, PriceData[]>\<close>: its entries in insertion order,
    each value a reference to an array.
  \<^item> \<open>delivered\<close> lists the maps passed to the update callback so far, oldest first; the
    market monitor registers the one callback.
\<close>

record MarketDataCollector =
  arrays :: "PriceData list list"
  priceData :: "(string \<times> nat) list"
  delivered :: "(string \<times> nat) list list"

text \<open>What \<open>provider.getPrice(pairName)\<close> resolves to: a price or \<open>null\<close>.\<close>

datatype Fetched = Price real real "real option" int | NoPrice

text \<open>\<open>Array.prototype.findIndex\<close>, with \<open>None\<close> for -1.\<close>

fun findIndex :: "('a \<Rightarrow> bool) \<Rightarrow> 'a list \<Rightarrow> nat option" where
  "findIndex P [] = None"
| "findIndex P (x # xs) =
     (if P x then Some 0 else (case findIndex P xs of None \<Rightarrow> None | Some i \<Rightarrow> Some (Suc i)))"

text \<open>
  The body of \<open>if (priceData)\<close> in \<open>collectData\<close>: the array of the pair is created when
  the map has none, then the venue's element is replaced in that array, or appended to it.
  Both are updates of the array object in place.
\<close>

definition storePrice :: "MarketDataCollector \<Rightarrow> PriceData \<Rightarrow> MarketDataCollector" where
  "storePrice c entry =
     (let c1 = (if pair entry \<in> fst ` set (priceData c) then c
                else c\<lparr>arrays := arrays c @ [[]],
                       priceData := priceData c @ [(pair entry, length (arrays c))]\<rparr>)
      in case map_of (priceData c1) (pair entry) of
           None \<Rightarrow> c1
         | Some ref \<Rightarrow>
             (let pairData = arrays c1 ! ref in
              case findIndex (\<lambda>p. dex p = dex entry) pairData of
                Some existingIndex \<Rightarrow>
                  c1\<lparr>arrays := (arrays c1)[ref := pairData[existingIndex := entry]]\<rparr>
              | None \<Rightarrow> c1\<lparr>arrays := (arrays c1)[ref := pairData @ [entry]]\<rparr>))"

text \<open>The inner loop of \<open>collectData\<close>: the pairs of one provider and what it returned.\<close>

fun collectPairs ::
  "MarketDataCollector \<Rightarrow> string \<Rightarrow> (string \<times> Fetched) list \<Rightarrow> MarketDataCollector" where
  "collectPairs c dexName [] = c"
| "collectPairs c dexName ((pairName, NoPrice) # rest) = collectPairs c dexName rest"
| "collectPairs c dexName ((pairName, Price b a l ts) # rest) =
     collectPairs
       (storePrice c \<lparr>dex = dexName, pair = pairName, bid = b, ask = a, last_price = l,
                      timestamp = ts\<rparr>)
       dexName rest"

text \<open>The outer loop of \<open>collectData\<close>: the providers in order.\<close>

fun collectProviders ::
  "MarketDataCollector \<Rightarrow> (string \<times> (string \<times> Fetched) list) list \<Rightarrow> MarketDataCollector" where
  "collectProviders c [] = c"
| "collectProviders c ((dexName, fetched) # rest) =
     collectProviders (collectPairs c dexName fetched) rest"

text \<open>\<open>getPriceData\<close>: \<open>new Map(this.priceData)\<close>, a new map with the same values.\<close>

definition getPriceData :: "MarketDataCollector \<Rightarrow> (string \<times> nat) list" where
  "getPriceData c = priceData c"

text \<open>\<open>notifyUpdateCallbacks\<close>: the callback receives \<open>this.getPriceData()\<close>.\<close>

definition notifyUpdateCallbacks :: "MarketDataCollector \<Rightarrow> MarketDataCollector" where
  "notifyUpdateCallbacks c = c\<lparr>delivered := delivered c @ [getPriceData c]\<rparr>"

text \<open>
  \<open>collectData\<close> for one poll cycle, given what the providers return in it (the providers
  of the repository catch their own errors and return \<open>null\<close>).
\<close>

definition collectData ::
  "MarketDataCollector \<Rightarrow> (string \<times> (string \<times> Fetched) list) list \<Rightarrow> MarketDataCollector" where
  "collectData c cycle = notifyUpdateCallbacks (collectProviders c cycle)"

text \<open>
  What a subscriber reads in a map it was given, when the collector is in state \<open>c\<close>:
  the arrays its values refer to.
\<close>

definition readSnapshot ::
  "MarketDataCollector \<Rightarrow> (string \<times> nat) list \<Rightarrow> (string \<times> PriceData list) list" where
  "readSnapshot c snapshot = map (\<lambda>(pairName, ref). (pairName, arrays c ! ref)) snapshot"

definition newCollector :: MarketDataCollector where
  "newCollector = \<lparr>arrays = [], priceData = [], delivered = []\<rparr>"


section \<open>Predicates and concrete inputs of the statements\<close>

text \<open>
  The admission gates in the spec's words: the system is running, a concurrency slot is
  free, the cool-down has passed, and the profit is at least the threshold. \<open>now\<close> is
  the clock reading of \<open>evaluateForExecution\<close>.
\<close>

definition admissionGates ::
  "int \<Rightarrow> ArbitrageDetector \<Rightarrow> ExecutableArbitrageOpportunity \<Rightarrow> bool" where
  "admissionGates now d opp \<longleftrightarrow>
     isRunning d \<and>
     activeExecutions d < maxConcurrentTrades (config d) \<and>
     now - lastExecutionTime d \<ge> cooldownMs (config d) \<and>
     profitPercentage opp \<ge> minProfitThreshold (config d)"




text \<open>
  The strategy configuration with the constructor's defaults, and the same with
  \<open>SOL/USDC\<close> on the blacklist of pairs.
\<close>

definition defaultStrategyConfig :: ArbitrageStrategyConfig where
  "defaultStrategyConfig =
     \<lparr>minProfitThreshold = 0.5, maxSlippage = 0.3, tradeSizeUsd = 1000, maxConcurrentTrades = 1,
      cooldownMs = 2000, gasMultiplier = 1.5,
      prioritizePairs = Some [], blacklistPairs = Some [],
      prioritizeDexes = Some [], blacklistDexes = Some [],
      minTradeIntervalMs = 5000, maxDailyTrades = 100\<rparr>"

definition blacklistingConfig :: ArbitrageStrategyConfig where
  "blacklistingConfig = defaultStrategyConfig\<lparr>blacklistPairs := Some [''SOL/USDC'']\<rparr>"

text \<open>The opportunity that the analyzer returns for the crossed market.\<close>

definition solOpportunity :: ArbitrageOpportunity where
  "solOpportunity =
     \<lparr>sourceDex = ''Raydium'', targetDex = ''Serum'', opp_pair = ''SOL/USDC'',
      profitPercentage = 2, estimatedProfit = 19.85, sourcePrice = 100, targetPrice = 102,
      direction = Buy, opp_timestamp = 1700000000000, tradeSize = 10\<rparr>"

text \<open>
  A started detector that has just stored \<open>solOpportunity\<close> as its first object, as
  \<open>handleOpportunities\<close> does before it evaluates it.
\<close>

definition armedDetector :: ArbitrageDetector where
  "armedDetector =
     (start (newDetector defaultStrategyConfig 1700000000000))
       \<lparr>objects := [pendingOpportunity solOpportunity (generateOpportunityId solOpportunity)],
        detectedOpportunities := [(generateOpportunityId solOpportunity, 0)]\<rparr>"






text \<open>
  Two poll cycles of a collector with the providers Serum and Raydium, both quoting
  \<open>SOL/USDC\<close>; the prices of the second cycle are 10 higher. \<open>afterCycleOne\<close> is the
  collector when the first cycle has been published.
\<close>

definition cycleOne :: "(string \<times> (string \<times> Fetched) list) list" where
  "cycleOne = [(''Serum'', [(''SOL/USDC'', Price 99 100 None 1700000000000)]),
               (''Raydium'', [(''SOL/USDC'', Price 98 99 None 1700000000000)])]"

definition cycleTwo :: "(string \<times> (string \<times> Fetched) list) list" where
  "cycleTwo = [(''Serum'', [(''SOL/USDC'', Price 109 110 None 1700000005000)]),
               (''Raydium'', [(''SOL/USDC'', Price 108 109 None 1700000005000)])]"

definition afterCycleOne :: MarketDataCollector where
  "afterCycleOne = collectData newCollector cycleOne"


(* ======================================================================== *)

section \<open>Properties of the market analysis\<close>

subsection \<open>Where an emitted opportunity comes from\<close>

lemma comparePair_stale:
  "now - timestamp a > 30000 \<or> now - timestamp b > 30000 \<Longrightarrow> comparePair an p now a b = []"
  by (simp add: comparePair_def)

lemma comparePair_fresh:
  assumes "opp \<in> set (comparePair an p now a b)"
  shows "opp_pair opp = p \<and> opp_timestamp opp = now \<and> direction opp = Buy \<and>
         now - timestamp a \<le> 30000 \<and> now - timestamp b \<le> 30000 \<and>
         (quotedBy opp a b \<or> quotedBy opp b a)"
  using assms
  by (auto simp: comparePair_def buyBranch_def sellBranch_def quotedBy_def Let_def
           split: if_splits)

lemma innerLoop_mem:
  "opp \<in> set (fst (innerLoop an p clk t a bs)) \<Longrightarrow>
     \<exists>b k. b \<in> set bs \<and> opp \<in> set (comparePair an p (clk k) a b)"
proof (induction bs arbitrary: t)
  case Nil
  then show ?case by simp
next
  case (Cons b bs)
  obtain f1 t1 where i: "innerLoop an p clk (Suc t) a bs = (f1, t1)"
    by (cases "innerLoop an p clk (Suc t) a bs")
  from Cons.prems i have "opp \<in> set (comparePair an p (clk t) a b) \<or> opp \<in> set f1" by simp
  then show ?case
  proof
    assume "opp \<in> set (comparePair an p (clk t) a b)"
    then show ?thesis by auto
  next
    assume "opp \<in> set f1"
    with i have "opp \<in> set (fst (innerLoop an p clk (Suc t) a bs))" by simp
    from Cons.IH[OF this] show ?thesis by auto
  qed
qed

lemma outerLoop_mem:
  "opp \<in> set (fst (outerLoop an p clk t xs)) \<Longrightarrow>
     \<exists>a b k. a \<in> set xs \<and> b \<in> set xs \<and> opp \<in> set (comparePair an p (clk k) a b)"
proof (induction xs arbitrary: t)
  case Nil
  then show ?case by simp
next
  case (Cons x xs)
  obtain f1 t1 where i: "innerLoop an p clk t x xs = (f1, t1)" by (cases "innerLoop an p clk t x xs")
  obtain f2 t2 where o: "outerLoop an p clk t1 xs = (f2, t2)" by (cases "outerLoop an p clk t1 xs")
  from Cons.prems i o have "opp \<in> set f1 \<or> opp \<in> set f2" by simp
  then show ?case
  proof
    assume "opp \<in> set f1"
    with i have "opp \<in> set (fst (innerLoop an p clk t x xs))" by simp
    from innerLoop_mem[OF this] show ?thesis by auto
  next
    assume "opp \<in> set f2"
    with o have "opp \<in> set (fst (outerLoop an p clk t1 xs))" by simp
    from Cons.IH[OF this] show ?thesis by auto
  qed
qed

lemma pairsLoop_mem:
  "opp \<in> set (fst (pairsLoop an clk t md)) \<Longrightarrow>
     \<exists>p arr a b k. (p, arr) \<in> set md \<and> a \<in> set arr \<and> b \<in> set arr \<and>
        opp \<in> set (comparePair an p (clk k) a b)"
proof (induction md arbitrary: t)
  case Nil
  then show ?case by simp
next
  case (Cons e md)
  obtain p arr where e: "e = (p, arr)" by (cases e)
  show ?case
  proof (cases "length arr < 2")
    case True
    with Cons.prems e have "opp \<in> set (fst (pairsLoop an clk t md))" by simp
    from Cons.IH[OF this] show ?thesis by (metis list.set_intros(2))
  next
    case False
    obtain f1 t1 where i: "outerLoop an p clk t arr = (f1, t1)" by (cases "outerLoop an p clk t arr")
    obtain f2 t2 where o: "pairsLoop an clk t1 md = (f2, t2)" by (cases "pairsLoop an clk t1 md")
    from Cons.prems e False i o have "opp \<in> set f1 \<or> opp \<in> set f2" by simp
    then show ?thesis
    proof
      assume "opp \<in> set f1"
      with i have "opp \<in> set (fst (outerLoop an p clk t arr))" by simp
      from outerLoop_mem[OF this] e show ?thesis
        by (auto intro!: exI[of _ p] exI[of _ arr])
    next
      assume "opp \<in> set f2"
      with o have "opp \<in> set (fst (pairsLoop an clk t1 md))" by simp
      from Cons.IH[OF this] show ?thesis by (metis list.set_intros(2))
    qed
  qed
qed

lemma find_set:
  "set (fst (findArbitrageOpportunities an clk t md)) = set (fst (pairsLoop an clk t md))"
  by (simp add: findArbitrageOpportunities_def split: prod.splits)


subsection \<open>Clock readings of one call\<close>

lemma innerLoop_ticks: "snd (innerLoop an p clk t a bs) = t + length bs"
  by (induction bs arbitrary: t) (simp_all add: split_beta)

lemma outerLoop_ticks: "snd (outerLoop an p clk t xs) = t + (length xs * (length xs - 1)) div 2"
proof (induction xs arbitrary: t)
  case Nil
  then show ?case by simp
next
  case (Cons x xs)
  have "snd (outerLoop an p clk t (x # xs)) =
        snd (outerLoop an p clk (snd (innerLoop an p clk t x xs)) xs)"
    by (simp add: split_beta)
  also have "\<dots> = t + length xs + (length xs * (length xs - 1)) div 2"
    by (simp add: Cons.IH innerLoop_ticks)
  also have "\<dots> = t + (length (x # xs) * (length (x # xs) - 1)) div 2"
    by (cases "length xs") (simp_all add: algebra_simps)
  finally show ?case .
qed

lemma pairsLoop_ticks: "snd (pairsLoop an clk t md) = t + clockReadings md"
proof (induction md arbitrary: t)
  case Nil
  then show ?case by simp
next
  case (Cons e md)
  obtain p arr where e: "e = (p, arr)" by (cases e)
  show ?case
  proof (cases "length arr < 2")
    case True
    with e Cons.IH show ?thesis by simp
  next
    case False
    have "snd (pairsLoop an clk t (e # md)) =
          snd (pairsLoop an clk (snd (outerLoop an p clk t arr)) md)"
      using e False by (simp add: split_beta)
    with e False show ?thesis by (simp add: Cons.IH outerLoop_ticks)
  qed
qed


subsection \<open>What a call depends on\<close>

lemma comparePair_cong:
  "sameDetectionConfig a1 a2 \<Longrightarrow> comparePair a1 p now a b = comparePair a2 p now a b"
  by (simp add: sameDetectionConfig_def comparePair_def buyBranch_def sellBranch_def gasCostUsd_def)

lemma innerLoop_cong:
  assumes "sameDetectionConfig a1 a2"
    and "\<forall>k < length bs. clk1 (t1 + k) = clk2 (t2 + k)"
  shows "fst (innerLoop a1 p clk1 t1 a bs) = fst (innerLoop a2 p clk2 t2 a bs)"
  using assms(2)
proof (induction bs arbitrary: t1 t2)
  case Nil
  then show ?case by simp
next
  case (Cons b bs)
  have h: "clk1 t1 = clk2 t2" using Cons.prems by force
  have "\<forall>k < length bs. clk1 (Suc t1 + k) = clk2 (Suc t2 + k)"
    using Cons.prems by force
  from Cons.IH[OF this] h comparePair_cong[OF assms(1)] show ?case
    by (simp add: split_beta)
qed

lemma outerLoop_cong:
  assumes "sameDetectionConfig a1 a2"
    and "\<forall>k < (length xs * (length xs - 1)) div 2. clk1 (t1 + k) = clk2 (t2 + k)"
  shows "fst (outerLoop a1 p clk1 t1 xs) = fst (outerLoop a2 p clk2 t2 xs)"
  using assms(2)
proof (induction xs arbitrary: t1 t2)
  case Nil
  then show ?case by simp
next
  case (Cons x xs)
  let ?n = "length xs"
  have split: "(length (x # xs) * (length (x # xs) - 1)) div 2 = ?n + (?n * (?n - 1)) div 2"
    by (cases "length xs") (simp_all add: algebra_simps)
  have a: "\<forall>k < ?n. clk1 (t1 + k) = clk2 (t2 + k)"
    using Cons.prems unfolding split by simp
  have b: "\<forall>k < (?n * (?n - 1)) div 2. clk1 (t1 + ?n + k) = clk2 (t2 + ?n + k)"
  proof (intro allI impI)
    fix k assume "k < (?n * (?n - 1)) div 2"
    then have "?n + k < ?n + (?n * (?n - 1)) div 2" by simp
    with Cons.prems[unfolded split] have "clk1 (t1 + (?n + k)) = clk2 (t2 + (?n + k))" by blast
    then show "clk1 (t1 + ?n + k) = clk2 (t2 + ?n + k)" by (simp add: add.assoc)
  qed
  have i: "fst (innerLoop a1 p clk1 t1 x xs) = fst (innerLoop a2 p clk2 t2 x xs)"
    by (rule innerLoop_cong[OF assms(1) a])
  have o: "fst (outerLoop a1 p clk1 (t1 + ?n) xs) = fst (outerLoop a2 p clk2 (t2 + ?n) xs)"
    by (rule Cons.IH[OF b])
  have s1: "snd (innerLoop a1 p clk1 t1 x xs) = t1 + ?n" by (rule innerLoop_ticks)
  have s2: "snd (innerLoop a2 p clk2 t2 x xs) = t2 + ?n" by (rule innerLoop_ticks)
  show ?case using i o s1 s2 by (simp add: split_beta)
qed

lemma pairsLoop_cong:
  assumes "sameDetectionConfig a1 a2"
    and "\<forall>k < clockReadings md. clk1 (t1 + k) = clk2 (t2 + k)"
  shows "fst (pairsLoop a1 clk1 t1 md) = fst (pairsLoop a2 clk2 t2 md)"
  using assms(2)
proof (induction md arbitrary: t1 t2)
  case Nil
  then show ?case by simp
next
  case (Cons e md)
  obtain p arr where e: "e = (p, arr)" by (cases e)
  show ?case
  proof (cases "length arr < 2")
    case True
    with e Cons show ?thesis by simp
  next
    case False
    let ?m = "(length arr * (length arr - 1)) div 2"
    have cr: "clockReadings (e # md) = ?m + clockReadings md" using e False by simp
    have a: "\<forall>k < ?m. clk1 (t1 + k) = clk2 (t2 + k)"
      using Cons.prems unfolding cr by simp
    have b: "\<forall>k < clockReadings md. clk1 (t1 + ?m + k) = clk2 (t2 + ?m + k)"
    proof (intro allI impI)
      fix k assume "k < clockReadings md"
      then have "?m + k < ?m + clockReadings md" by simp
      with Cons.prems[unfolded cr] have "clk1 (t1 + (?m + k)) = clk2 (t2 + (?m + k))" by blast
      then show "clk1 (t1 + ?m + k) = clk2 (t2 + ?m + k)" by (simp add: add.assoc)
    qed
    have i: "fst (outerLoop a1 p clk1 t1 arr) = fst (outerLoop a2 p clk2 t2 arr)"
      by (rule outerLoop_cong[OF assms(1) a])
    have o: "fst (pairsLoop a1 clk1 (t1 + ?m) md) = fst (pairsLoop a2 clk2 (t2 + ?m) md)"
      by (rule Cons.IH[OF b])
    have s1: "snd (outerLoop a1 p clk1 t1 arr) = t1 + ?m" by (rule outerLoop_ticks)
    have s2: "snd (outerLoop a2 p clk2 t2 arr) = t2 + ?m" by (rule outerLoop_ticks)
    show ?thesis using e False i o s1 s2 by (simp add: split_beta)
  qed
qed


subsection \<open>Claim C8: stale quotes take no part in detection\<close>

text \<open>
  C8. A venue pair one of whose quotes is older than 30000 ms at the pair's clock reading
  contributes no opportunity, whatever the prices. Hence every opportunity returned by
  \<open>findArbitrageOpportunities\<close> is quoted by a source and a target quote of its pair's
  array that are both at most 30000 ms older than the opportunity's detection time (its
  \<open>timestamp\<close>, the clock reading of the comparison that emitted it).
\<close>

theorem stale_quotes_yield_no_opportunity:
  "(now - timestamp a > 30000 \<or> now - timestamp b > 30000 \<longrightarrow> comparePair an p now a b = []) \<and>
   (opp \<in> set (fst (findArbitrageOpportunities an clk t marketData)) \<longrightarrow>
      (\<exists>arr src tgt. (opp_pair opp, arr) \<in> set marketData \<and> src \<in> set arr \<and> tgt \<in> set arr \<and>
          quotedBy opp src tgt \<and>
          opp_timestamp opp - timestamp src \<le> 30000 \<and>
          opp_timestamp opp - timestamp tgt \<le> 30000))"
proof (intro conjI impI)
  assume "now - timestamp a > 30000 \<or> now - timestamp b > 30000"
  then show "comparePair an p now a b = []" by (rule comparePair_stale)
next
  assume "opp \<in> set (fst (findArbitrageOpportunities an clk t marketData))"
  then have "opp \<in> set (fst (pairsLoop an clk t marketData))" by (simp add: find_set)
  from pairsLoop_mem[OF this] obtain p arr a b k where
    m: "(p, arr) \<in> set marketData" "a \<in> set arr" "b \<in> set arr"
    and c: "opp \<in> set (comparePair an p (clk k) a b)" by blast
  from comparePair_fresh[OF c] m
  show "\<exists>arr src tgt. (opp_pair opp, arr) \<in> set marketData \<and> src \<in> set arr \<and> tgt \<in> set arr \<and>
          quotedBy opp src tgt \<and>
          opp_timestamp opp - timestamp src \<le> 30000 \<and>
          opp_timestamp opp - timestamp tgt \<le> 30000" by auto
qed

text \<open>
  The theorem at the crossed market: read 40 s after the quotes the pair yields nothing;
  read 1 s after them it yields the opportunity below, whose quotes are 1000 ms old.
\<close>

theorem stale_quotes_yield_no_opportunity_witness:
  "fixedClock 1700000040000 0 - timestamp quoteSerum > 30000 \<and>
   comparePair defaultAnalyzer ''SOL/USDC'' (fixedClock 1700000040000 0) quoteSerum quoteRaydium = [] \<and>
   \<lparr>sourceDex = ''Raydium'', targetDex = ''Serum'', opp_pair = ''SOL/USDC'',
     profitPercentage = 2, estimatedProfit = 19.85, sourcePrice = 100, targetPrice = 102,
     direction = Buy, opp_timestamp = 1700000000000, tradeSize = 10\<rparr>
     \<in> set (fst (findArbitrageOpportunities defaultAnalyzer (fixedClock 1700000000000) 0 crossedMarket)) \<and>
   (\<exists>arr src tgt. (''SOL/USDC'', arr) \<in> set crossedMarket \<and> src \<in> set arr \<and> tgt \<in> set arr \<and>
      dex src = ''Raydium'' \<and> dex tgt = ''Serum'' \<and>
      1700000000000 - timestamp src \<le> 30000 \<and> 1700000000000 - timestamp tgt \<le> 30000)"
proof -
  let ?opp = "\<lparr>sourceDex = ''Raydium'', targetDex = ''Serum'', opp_pair = ''SOL/USDC'',
     profitPercentage = 2, estimatedProfit = 19.85, sourcePrice = 100, targetPrice = 102,
     direction = Buy, opp_timestamp = 1700000000000, tradeSize = 10\<rparr>"
  have old: "fixedClock 1700000040000 0 - timestamp quoteSerum > 30000"
    by (simp add: fixedClock_def quoteSerum_def)
  have found: "?opp \<in> set (fst (findArbitrageOpportunities defaultAnalyzer
                  (fixedClock 1700000000000) 0 crossedMarket))"
    by (simp add: findArbitrageOpportunities_def crossedMarket_def quoteSerum_def quoteRaydium_def
          defaultAnalyzer_def comparePair_def buyBranch_def sellBranch_def gasCostUsd_def
          fixedClock_def Let_def)
  note inst = stale_quotes_yield_no_opportunity
    [of "fixedClock 1700000040000 0" quoteSerum quoteRaydium defaultAnalyzer "''SOL/USDC''"
        ?opp "fixedClock 1700000000000" 0 crossedMarket]
  from inst old have c1: "comparePair defaultAnalyzer ''SOL/USDC'' (fixedClock 1700000040000 0)
      quoteSerum quoteRaydium = []" by blast
  from inst found obtain arr src tgt where
    "(opp_pair ?opp, arr) \<in> set crossedMarket" "src \<in> set arr" "tgt \<in> set arr"
    "quotedBy ?opp src tgt"
    "opp_timestamp ?opp - timestamp src \<le> 30000" "opp_timestamp ?opp - timestamp tgt \<le> 30000"
    by blast
  then have "\<exists>arr src tgt. (''SOL/USDC'', arr) \<in> set crossedMarket \<and> src \<in> set arr \<and> tgt \<in> set arr \<and>
      dex src = ''Raydium'' \<and> dex tgt = ''Serum'' \<and>
      1700000000000 - timestamp src \<le> 30000 \<and> 1700000000000 - timestamp tgt \<le> 30000"
    by (auto simp: quotedBy_def)
  with old c1 found show ?thesis by blast
qed

subsection \<open>Claim C2: the direction of the second branch\<close>

text \<open>
  C2 says that a venue pair with \<open>quotes[i].bid > quotes[j].ask\<close> that passes the profit
  gates yields an opportunity whose direction is \<open>sell\<close>. At the crossed market (Serum
  at index 0 bids 102, Raydium at index 1 asks 100, profit 2 percent, estimated profit
  19.85) the only opportunity returned comes from the second branch, with source and
  target swapped, and its direction is \<open>buy\<close>.
\<close>

theorem second_branch_emits_buy:
  "fst (findArbitrageOpportunities defaultAnalyzer (fixedClock 1700000000000) 0 crossedMarket) =
     [\<lparr>sourceDex = ''Raydium'', targetDex = ''Serum'', opp_pair = ''SOL/USDC'',
       profitPercentage = 2, estimatedProfit = 19.85, sourcePrice = 100, targetPrice = 102,
       direction = Buy, opp_timestamp = 1700000000000, tradeSize = 10\<rparr>]"
  by (simp add: findArbitrageOpportunities_def crossedMarket_def quoteSerum_def quoteRaydium_def
        defaultAnalyzer_def comparePair_def buyBranch_def sellBranch_def gasCostUsd_def
        fixedClock_def Let_def)

subsection \<open>Claim C5: what detection depends on\<close>

text \<open>
  C5 as stated (equal market data give equal results, with no dependence on the clock)
  fails: the same market data analysed by the same analyzer 1 s and 40 s after the quotes
  were taken gives one opportunity and none.
\<close>

theorem detection_depends_on_clock:
  "fst (findArbitrageOpportunities defaultAnalyzer (fixedClock 1700000000000) 0 crossedMarket)
     \<noteq> fst (findArbitrageOpportunities defaultAnalyzer (fixedClock 1700000040000) 0 crossedMarket)"
  by (simp add: findArbitrageOpportunities_def crossedMarket_def quoteSerum_def quoteRaydium_def
        defaultAnalyzer_def comparePair_def buyBranch_def sellBranch_def gasCostUsd_def
        fixedClock_def Let_def)

text \<open>
  C5, amended. The result of \<open>findArbitrageOpportunities\<close> is determined by the market
  data, by the analyzer's fields \<open>minProfitThreshold\<close>, \<open>tradeSizeUsd\<close>, \<open>gasCostSol\<close>
  and \<open>solPriceUsd\<close>, and by the readings of \<open>Date.now()\<close> the call makes, one per
  compared venue pair: two calls that agree on these return equal lists, whatever else
  differs (the field \<open>maxSlippage\<close>, the clock before and after the call). The function
  assigns no field of the analyzer and no element of its argument, which is why the
  model returns no new state.
\<close>

theorem detection_determined_by_inputs_config_and_clock:
  assumes "sameDetectionConfig a1 a2"
    and "\<forall>k < clockReadings marketData. clk1 (t1 + k) = clk2 (t2 + k)"
  shows "fst (findArbitrageOpportunities a1 clk1 t1 marketData) =
         fst (findArbitrageOpportunities a2 clk2 t2 marketData)"
  using pairsLoop_cong[OF assms]
  by (simp add: findArbitrageOpportunities_def split_beta)

theorem detection_determined_by_inputs_config_and_clock_witness:
  "sameDetectionConfig defaultAnalyzer (defaultAnalyzer\<lparr>an_maxSlippage := 1\<rparr>) \<and>
   clockReadings crossedMarket = 1 \<and>
   fst (findArbitrageOpportunities defaultAnalyzer (fixedClock 1700000000000) 0 crossedMarket) =
   fst (findArbitrageOpportunities (defaultAnalyzer\<lparr>an_maxSlippage := 1\<rparr>)
          (fixedClock 1700000000000) 7 crossedMarket)"
proof -
  have c: "sameDetectionConfig defaultAnalyzer (defaultAnalyzer\<lparr>an_maxSlippage := 1\<rparr>)"
    by (simp add: sameDetectionConfig_def)
  have n: "clockReadings crossedMarket = 1"
    by (simp add: crossedMarket_def)
  have k: "\<forall>k < clockReadings crossedMarket.
             fixedClock 1700000000000 (0 + k) = fixedClock 1700000000000 (7 + k)"
    by (simp add: fixedClock_def)
  from detection_determined_by_inputs_config_and_clock[OF c k] c n show ?thesis by simp
qed

section \<open>Properties of the detector\<close>

subsection \<open>What each method leaves unchanged\<close>

lemma notify_frame:
  "config (fst (notifyOpportunityCallbacks clk t d ref)) = config d"
  "isRunning (fst (notifyOpportunityCallbacks clk t d ref)) = isRunning d"
  "detectedOpportunities (fst (notifyOpportunityCallbacks clk t d ref)) = detectedOpportunities d"
  "lastExecutionTime (fst (notifyOpportunityCallbacks clk t d ref)) = lastExecutionTime d"
  "activeExecutions (fst (notifyOpportunityCallbacks clk t d ref)) = activeExecutions d"
  "objects (fst (notifyOpportunityCallbacks clk t d ref)) = objects d"
  "suspended (fst (notifyOpportunityCallbacks clk t d ref)) = suspended d"
  by (simp_all add: notifyOpportunityCallbacks_def split_beta)

lemma execute_frame:
  "config (fst (executeOpportunity clk t d ref)) = config d"
  "isRunning (fst (executeOpportunity clk t d ref)) = isRunning d"
  "detectedOpportunities (fst (executeOpportunity clk t d ref)) = detectedOpportunities d"
  "activeExecutions (fst (executeOpportunity clk t d ref)) = activeExecutions d + 1"
  "suspended (fst (executeOpportunity clk t d ref)) = suspended d @ [ref]"
  "lastExecutionTime (fst (executeOpportunity clk t d ref)) = clk t"
  by (simp_all add: executeOpportunity_def Let_def split_beta notify_frame)

lemma execute_objects:
  "objects (fst (executeOpportunity clk t d ref)) =
     (objects d)[ref := (objects d ! ref)\<lparr>status := Executing, executionTimestamp := Some (clk t)\<rparr>]"
  by (simp add: executeOpportunity_def Let_def split_beta notify_frame)


lemma evaluate_cases:
  "fst (evaluateForExecution clk t d ref) =
     (if admissionGates (clk t) d (objects d ! ref) then fst (executeOpportunity clk (Suc t) d ref) else d)"
  by (auto simp: evaluateForExecution_def admissionGates_def Let_def)


























lemma solOpportunity_id:
  "generateOpportunityId solOpportunity = ''Raydium-Serum-SOL/USDC-buy-1700000000000''"
  by (simp add: generateOpportunityId_def solOpportunity_def directionToString_def
        numberToString_def digits.simps)

lemmas detector_eval =
  solOpportunity_id newDetector_def defaultStrategyConfig_def blacklistingConfig_def start_def
  stop_def handleOpportunities_def handleOne_def pendingOpportunity_def
  notifyOpportunityCallbacks_def handleOpportunity_def filterOpportunity_def
  checkTradeLimits_def resetDailyTradeCount_def evaluateForExecution_def executeOpportunity_def
  executeOpportunityResume_def cleanupOldOpportunities_def fixedClock_def solOpportunity_def
  numberToString_def digits.simps Let_def

subsection \<open>Claim C6: the admission gates\<close>

text \<open>
  C6. \<open>evaluateForExecution\<close> starts the execution exactly when every admission gate
  holds: the detector is running, \<open>activeExecutions < maxConcurrentTrades\<close>, the cool-down
  has passed at the clock reading, and the opportunity's profit percentage is at least
  the threshold. When a gate fails (in particular when
  \<open>activeExecutions = maxConcurrentTrades\<close>), the detector is left as it was. Starting the
  execution takes a slot and marks the opportunity as executing.
\<close>

theorem admission_exactly_when_all_gates_hold:
  "(admissionGates (clk t) d (objects d ! ref) \<longrightarrow>
      evaluateForExecution clk t d ref = executeOpportunity clk (Suc t) d ref) \<and>
   (\<not> admissionGates (clk t) d (objects d ! ref) \<longrightarrow> fst (evaluateForExecution clk t d ref) = d) \<and>
   (activeExecutions d = maxConcurrentTrades (config d) \<longrightarrow>
      fst (evaluateForExecution clk t d ref) = d) \<and>
   activeExecutions (fst (executeOpportunity clk (Suc t) d ref)) = activeExecutions d + 1 \<and>
   (ref < length (objects d) \<longrightarrow>
      status (objects (fst (executeOpportunity clk (Suc t) d ref)) ! ref) = Executing)"
proof -
  have a: "admissionGates (clk t) d (objects d ! ref) \<longrightarrow>
      evaluateForExecution clk t d ref = executeOpportunity clk (Suc t) d ref"
    by (auto simp: evaluateForExecution_def admissionGates_def Let_def)
  have b: "\<not> admissionGates (clk t) d (objects d ! ref) \<longrightarrow>
      fst (evaluateForExecution clk t d ref) = d"
    by (simp add: evaluate_cases)
  have c: "activeExecutions d = maxConcurrentTrades (config d) \<longrightarrow>
      fst (evaluateForExecution clk t d ref) = d"
    by (simp add: evaluateForExecution_def)
  have e: "ref < length (objects d) \<longrightarrow>
      status (objects (fst (executeOpportunity clk (Suc t) d ref)) ! ref) = Executing"
    by (simp add: execute_objects)
  from a b c e show ?thesis by (simp add: execute_frame)
qed

text \<open>
  The theorem at the armed detector: all gates hold and the execution starts; once the
  detector is stopped a gate fails and nothing changes.
\<close>

theorem admission_exactly_when_all_gates_hold_witness:
  "admissionGates (fixedClock 1700000000000 0) armedDetector (objects armedDetector ! 0) \<and>
   evaluateForExecution (fixedClock 1700000000000) 0 armedDetector 0 =
     executeOpportunity (fixedClock 1700000000000) (Suc 0) armedDetector 0 \<and>
   status (objects (fst (executeOpportunity (fixedClock 1700000000000) (Suc 0) armedDetector 0)) ! 0)
     = Executing \<and>
   \<not> admissionGates (fixedClock 1700000000000 0) (stop armedDetector)
        (objects (stop armedDetector) ! 0) \<and>
   fst (evaluateForExecution (fixedClock 1700000000000) 0 (stop armedDetector) 0) = stop armedDetector"
proof -
  have g: "admissionGates (fixedClock 1700000000000 0) armedDetector (objects armedDetector ! 0)"
    by (simp add: admissionGates_def armedDetector_def detector_eval)
  have n: "\<not> admissionGates (fixedClock 1700000000000 0) (stop armedDetector)
             (objects (stop armedDetector) ! 0)"
    by (simp add: admissionGates_def armedDetector_def detector_eval)
  have l: "0 < length (objects armedDetector)"
    by (simp add: armedDetector_def)
  from g l admission_exactly_when_all_gates_hold
         [of "fixedClock 1700000000000" 0 armedDetector 0]
  have "evaluateForExecution (fixedClock 1700000000000) 0 armedDetector 0 =
          executeOpportunity (fixedClock 1700000000000) (Suc 0) armedDetector 0 \<and>
        status (objects (fst (executeOpportunity (fixedClock 1700000000000) (Suc 0)
          armedDetector 0)) ! 0) = Executing"
    by blast
  moreover from n admission_exactly_when_all_gates_hold
         [of "fixedClock 1700000000000" 0 "stop armedDetector" 0]
  have "fst (evaluateForExecution (fixedClock 1700000000000) 0 (stop armedDetector) 0)
          = stop armedDetector"
    by blast
  ultimately show ?thesis using g n by blast
qed

subsection \<open>Claim C7: first seen wins\<close>



subsection \<open>Claim C9: the counter of active executions\<close>



subsection \<open>Claim C4: blacklisted opportunities\<close>

text \<open>
  C4 says that an opportunity whose pair is on the blacklist is never executed. With
  \<open>SOL/USDC\<close> on the blacklist of pairs, \<open>filterOpportunity\<close> rejects \<open>solOpportunity\<close>;
  the strategy's callback then returns, and its answer reaches nobody. The detector,
  started and given the opportunity, moves it from pending to executing all the same,
  and the execution completes.
\<close>

theorem blacklisted_pair_is_executed:
  "\<not> filterOpportunity blacklistingConfig
        (pendingOpportunity solOpportunity (generateOpportunityId solOpportunity)) \<and>
   map status (objects (fst (run (fixedClock 1700000000000) 0
      (newDetector blacklistingConfig 1700000000000)
      [StartCalled, Delivers [solOpportunity]]))) = [Executing] \<and>
   map status (objects (fst (run (fixedClock 1700000000000) 0
      (newDetector blacklistingConfig 1700000000000)
      [StartCalled, Delivers [solOpportunity], GoesOn 0 (Resolves 0.5)]))) = [Completed]"
  by (simp add: detector_eval)

section \<open>Properties of trade execution\<close>








subsection \<open>Claim C10: the reported output amount\<close>




subsection \<open>Claim C1: no second leg without the first\<close>







section \<open>Properties of market data collection\<close>

subsection \<open>Claim C3: published snapshots\<close>

lemma afterCycleOne_value:
  "afterCycleOne =
     \<lparr>arrays = [[\<lparr>dex = ''Serum'', pair = ''SOL/USDC'', bid = 99, ask = 100, last_price = None,
                   timestamp = 1700000000000\<rparr>,
                 \<lparr>dex = ''Raydium'', pair = ''SOL/USDC'', bid = 98, ask = 99, last_price = None,
                   timestamp = 1700000000000\<rparr>]],
      priceData = [(''SOL/USDC'', 0)], delivered = [[(''SOL/USDC'', 0)]]\<rparr>"
  by (simp add: afterCycleOne_def collectData_def cycleOne_def newCollector_def storePrice_def
       notifyUpdateCallbacks_def getPriceData_def Let_def)

text \<open>
  C3 says that a published map is an immutable copy that later cycles do not change, and
  that no subscriber sees a partially updated cycle. \<open>getPriceData\<close> copies the map, not
  the arrays in it. The map published after the first cycle reads Serum at 99/100 and
  Raydium at 98/99 when it is published; read again after the second cycle it shows the
  second cycle's prices; read while the second cycle has fetched Serum and not yet
  Raydium it shows Serum's new quote beside Raydium's old one.
\<close>

theorem published_snapshot_changes_later:
  "readSnapshot afterCycleOne (last (delivered afterCycleOne)) =
     [(''SOL/USDC'',
       [\<lparr>dex = ''Serum'', pair = ''SOL/USDC'', bid = 99, ask = 100, last_price = None,
          timestamp = 1700000000000\<rparr>,
        \<lparr>dex = ''Raydium'', pair = ''SOL/USDC'', bid = 98, ask = 99, last_price = None,
          timestamp = 1700000000000\<rparr>])] \<and>
   readSnapshot (collectData afterCycleOne cycleTwo) (last (delivered afterCycleOne)) =
     [(''SOL/USDC'',
       [\<lparr>dex = ''Serum'', pair = ''SOL/USDC'', bid = 109, ask = 110, last_price = None,
          timestamp = 1700000005000\<rparr>,
        \<lparr>dex = ''Raydium'', pair = ''SOL/USDC'', bid = 108, ask = 109, last_price = None,
          timestamp = 1700000005000\<rparr>])] \<and>
   readSnapshot (collectProviders afterCycleOne (take 1 cycleTwo)) (last (delivered afterCycleOne)) =
     [(''SOL/USDC'',
       [\<lparr>dex = ''Serum'', pair = ''SOL/USDC'', bid = 109, ask = 110, last_price = None,
          timestamp = 1700000005000\<rparr>,
        \<lparr>dex = ''Raydium'', pair = ''SOL/USDC'', bid = 98, ask = 99, last_price = None,
          timestamp = 1700000000000\<rparr>])]"
  by (simp add: afterCycleOne_value readSnapshot_def collectData_def cycleTwo_def storePrice_def
       notifyUpdateCallbacks_def getPriceData_def Let_def)


end
